theory Spec2Isabelle
  imports Complex_Main
begin

section \<open>The resilient request executor of the Amazing Marvin client\<close>

text \<open>
  A shallow embedding of \<^verbatim>\<open>src/client.ts\<close> (class \<^verbatim>\<open>MarvinClient\<close>: constructor,
  \<^verbatim>\<open>parseRetryAfter\<close>, \<^verbatim>\<open>post\<close>, \<^verbatim>\<open>request\<close>, \<^verbatim>\<open>requestWithRetries\<close>,
  \<^verbatim>\<open>toMarvinError\<close>, \<^verbatim>\<open>waitBeforeRetry\<close>, \<^verbatim>\<open>makeRequestCore\<close>) and of
  \<^verbatim>\<open>src/errors.ts\<close> (class \<^verbatim>\<open>MarvinError\<close>).

  Conventions of the model.
  \<^item> Status codes, clock readings, the base delay and the attempt counter are integers
    (\<open>int\<close>). The configured number of retries is a \<open>real\<close>: the constructor accepts
    every number that is not below 0 (\<^verbatim>\<open>NaN\<close> and \<^verbatim>\<open>Infinity\<close> as numbers of retries
    are outside the model). A retry hint and a recorded delay are JavaScript numbers that may
    be infinite (\<open>jsnumber\<close>); \<^verbatim>\<open>NaN\<close> is \<open>None\<close>.
  \<^item> The product of two doubles is rounded by the runtime; it is a parameter of the model
    (\<open>doubleTimes\<close>), so that nothing is assumed about the rounding.
  \<^item> An exception is the \<open>Inl\<close> side of a sum; the thrown value is classified the way the
    code classifies it (\<^verbatim>\<open>instanceof MarvinError\<close>, \<^verbatim>\<open>instanceof Error\<close>, anything else).
  \<^item> The injected transport is a function of the number of earlier invocations and of the
    request; every invocation is recorded in the state, so the number of invocations is the
    length of that record. The delays passed to \<^verbatim>\<open>setTimeout\<close> by \<^verbatim>\<open>delay\<close> are recorded too.
  \<^item> Builtins of the JavaScript runtime (\<^verbatim>\<open>Number\<close>, \<^verbatim>\<open>new Date(v).getTime()\<close>,
    \<^verbatim>\<open>JSON.stringify\<close>, the multiplication of doubles) are parameters, collected in a
    record.
  \<^item> The per-attempt timer that aborts a transport call is not modelled; an abort is one of
    the ways the transport throws.
\<close>

subsection \<open>JavaScript numbers\<close>

text \<open>A number other than \<^verbatim>\<open>NaN\<close>: finite, or one of the two infinities.\<close>

datatype jsnumber =
    NegInfinity
  | Finite real
  | PosInfinity

text \<open>\<^verbatim>\<open>Math.floor(x)\<close>\<close>

definition Math_floor :: "jsnumber \<Rightarrow> jsnumber" where
  "Math_floor x = (case x of Finite r \<Rightarrow> Finite (of_int \<lfloor>r\<rfloor>) | _ \<Rightarrow> x)"

text \<open>\<^verbatim>\<open>Math.max(0, x)\<close>\<close>

definition Math_max0 :: "jsnumber \<Rightarrow> jsnumber" where
  "Math_max0 x =
     (case x of
        NegInfinity \<Rightarrow> Finite 0
      | Finite r \<Rightarrow> Finite (max 0 r)
      | PosInfinity \<Rightarrow> PosInfinity)"

text \<open>\<^verbatim>\<open>!(x < 0)\<close>\<close>

definition nonNegative :: "jsnumber \<Rightarrow> bool" where
  "nonNegative x = (case x of NegInfinity \<Rightarrow> False | Finite r \<Rightarrow> 0 \<le> r | PosInfinity \<Rightarrow> True)"

subsection \<open>errors.ts: the failure record\<close>

text \<open>The field \<open>httpMethod\<close> is the source's \<^verbatim>\<open>method\<close>.\<close>

record MarvinError =
  message :: string
  status :: int
  statusText :: string
  endpoint :: string
  httpMethod :: string
  timestamp :: int
  retryAfterMs :: "jsnumber option"

definition isClientError :: "MarvinError \<Rightarrow> bool" where
  "isClientError e = (status e \<ge> 400 \<and> status e < 500)"

definition isServerError :: "MarvinError \<Rightarrow> bool" where
  "isServerError e = (status e \<ge> 500)"

definition isRetryable :: "MarvinError \<Rightarrow> bool" where
  "isRetryable e = (isServerError e \<or> status e = 0)"

subsection \<open>Values of the JavaScript runtime\<close>

text \<open>A value caught by \<^verbatim>\<open>catch\<close>, as the code tells its three kinds apart.\<close>

datatype thrown =
    ThrowsMarvinError MarvinError
  | ThrowsError string
  | ThrowsOther

text \<open>A value of type \<^verbatim>\<open>unknown\<close> handed to \<^verbatim>\<open>post\<close> as the body.\<close>

datatype jsvalue =
    JUndefined
  | JNull
  | JBoolean bool
  | JNumber int
  | JString string
  | JArray "jsvalue list"
  | JObject "(string \<times> jsvalue) list"

text \<open>\<^verbatim>\<open>if (body)\<close>: the truthiness of a value.\<close>

fun truthy :: "jsvalue \<Rightarrow> bool" where
  "truthy JUndefined = False"
| "truthy JNull = False"
| "truthy (JBoolean b) = b"
| "truthy (JNumber n) = (n \<noteq> 0)"
| "truthy (JString s) = (s \<noteq> [])"
| "truthy (JArray xs) = True"
| "truthy (JObject kvs) = True"

text \<open>
  \<open>Number v\<close> is \<^verbatim>\<open>Number(v)\<close> (\<open>None\<close> for \<^verbatim>\<open>NaN\<close>); \<open>DateGetTime v\<close> is
  \<^verbatim>\<open>new Date(v).getTime()\<close> (\<open>None\<close> for \<^verbatim>\<open>NaN\<close>); \<open>doubleTimes a b\<close> is the product
  \<^verbatim>\<open>a * b\<close> of two finite doubles as the runtime rounds it, infinite when it overflows.
\<close>

record js_runtime =
  Number :: "string \<Rightarrow> jsnumber option"
  DateGetTime :: "string \<Rightarrow> int option"
  doubleTimes :: "real \<Rightarrow> real \<Rightarrow> jsnumber"
  JSON_stringify :: "jsvalue \<Rightarrow> string"

text \<open>\<^verbatim>\<open>secs * 1000\<close>\<close>

definition times1000 :: "js_runtime \<Rightarrow> jsnumber \<Rightarrow> jsnumber" where
  "times1000 rt secs =
     (case secs of
        NegInfinity \<Rightarrow> NegInfinity
      | Finite s \<Rightarrow> doubleTimes rt s 1000
      | PosInfinity \<Rightarrow> PosInfinity)"

text \<open>The decimal rendering of an integer inside a template literal.\<close>

definition digitChar :: "nat \<Rightarrow> char" where
  "digitChar d = ''0123456789'' ! d"

fun natToString :: "nat \<Rightarrow> string" where
  "natToString n = (if n < 10 then [digitChar n] else natToString (n div 10) @ [digitChar (n mod 10)])"

declare natToString.simps [simp del]

definition numberToString :: "int \<Rightarrow> string" where
  "numberToString i = (if i < 0 then CHR ''-'' # natToString (nat (- i)) else natToString (nat i))"

text \<open>
  \<^verbatim>\<open>String.prototype.trim\<close> on code units below 256: tab, line feed, vertical tab, form
  feed, carriage return, space and no-break space are white space.
\<close>

definition isWhiteSpace :: "char \<Rightarrow> bool" where
  "isWhiteSpace c = (of_char c \<in> {9, 10, 11, 12, 13, 32, 160 :: nat})"

definition trim :: "string \<Rightarrow> string" where
  "trim s = rev (dropWhile isWhiteSpace (rev (dropWhile isWhiteSpace s)))"

subsection \<open>client.ts: configuration and construction\<close>

record MarvinClientConfig =
  cfg_apiToken :: "string option"
  cfg_baseUrl :: "string option"
  cfg_timeout :: "int option"
  cfg_retries :: "real option"
  cfg_retryDelay :: "int option"

record MarvinClient =
  apiToken :: string
  baseUrl :: string
  timeout :: int
  retries :: real
  retryDelay :: int

text \<open>\<^verbatim>\<open>a ?? d\<close>\<close>

definition nullish :: "'a option \<Rightarrow> 'a \<Rightarrow> 'a" where
  "nullish a d = (case a of None \<Rightarrow> d | Some v \<Rightarrow> v)"

text \<open>\<^verbatim>\<open>a || d\<close> on an optional string: the empty string is falsy.\<close>

definition orElse :: "string option \<Rightarrow> string \<Rightarrow> string" where
  "orElse a d = (case a of None \<Rightarrow> d | Some v \<Rightarrow> if v = [] then d else v)"

definition newMarvinClient :: "MarvinClientConfig \<Rightarrow> string + MarvinClient" where
  "newMarvinClient config =
     (case cfg_apiToken config of
        None \<Rightarrow> Inl ''API token is required and cannot be empty''
      | Some t \<Rightarrow>
          if t = [] \<or> trim t = [] then Inl ''API token is required and cannot be empty''
          else
            let this = \<lparr> apiToken = t,
                         baseUrl = orElse (cfg_baseUrl config) ''https://serv.amazingmarvin.com/api'',
                         timeout = nullish (cfg_timeout config) 10000,
                         retries = nullish (cfg_retries config) 3,
                         retryDelay = nullish (cfg_retryDelay config) 1000 \<rparr>
            in if timeout this \<le> 0 then Inl ''Timeout must be greater than 0''
               else if retries this < 0 then Inl ''Retries must be 0 or greater''
               else if retryDelay this \<le> 0 then Inl ''Retry delay must be greater than 0''
               else Inr this)"

subsection \<open>client.ts: the retry hint\<close>

definition parseRetryAfter :: "js_runtime \<Rightarrow> int \<Rightarrow> string option \<Rightarrow> jsnumber option" where
  "parseRetryAfter rt now value =
     (case value of
        None \<Rightarrow> None
      | Some v \<Rightarrow>
          if v = [] then None
          else (case Number rt v of
                  Some secs \<Rightarrow> Some (Math_max0 (Math_floor (times1000 rt secs)))
                | None \<Rightarrow>
                    (case DateGetTime rt v of
                       Some dateMs \<Rightarrow> Some (Math_max0 (Finite (of_int (dateMs - now))))
                     | None \<Rightarrow> None)))"

subsection \<open>client.ts: requests, responses and the world a call runs in\<close>

record RequestInit =
  init_method :: "string option"
  init_body :: "string option"
  init_headers :: "string \<rightharpoonup> string"

text \<open>What the transport receives: the URL and the spread options with the merged headers.\<close>

record Request =
  req_url :: string
  req_method :: "string option"
  req_body :: "string option"
  req_headers :: "string \<rightharpoonup> string"

text \<open>
  A response: the \<^verbatim>\<open>ok\<close> flag, the status and reason phrase, the result of
  \<^verbatim>\<open>headers?.get?.('retry-after') ?? null\<close>, and what the two body readers do.
\<close>

record Response =
  resp_ok :: bool
  resp_status :: int
  resp_statusText :: string
  resp_retryAfter :: "string option"
  resp_json :: "thrown + jsvalue"
  resp_text :: "thrown + string"

text \<open>
  The world of one call. \<open>fetchFn k req\<close> is what the transport does at its \<open>k\<close>-th
  invocation (counted from 0). An attempt reads \<^verbatim>\<open>Date.now()\<close> at most once inside
  \<^verbatim>\<open>parseRetryAfter\<close> and then at most once for the timestamp of the one failure record
  it builds: \<open>nowParse k\<close> and \<open>nowStamp k\<close> are these two readings.
\<close>

record world =
  fetchFn :: "nat \<Rightarrow> Request \<Rightarrow> thrown + Response"
  nowParse :: "nat \<Rightarrow> int"
  nowStamp :: "nat \<Rightarrow> int"

record run_state =
  sent :: "Request list"
  delays :: "jsnumber list"

definition initial :: run_state where
  "initial = \<lparr> sent = [], delays = [] \<rparr>"

text \<open>\<^verbatim>\<open>options.method || 'GET'\<close>\<close>

definition methodOf :: "RequestInit \<Rightarrow> string" where
  "methodOf options = orElse (init_method options) ''GET''"

definition networkError :: "string \<Rightarrow> string \<Rightarrow> string \<Rightarrow> int \<Rightarrow> MarvinError" where
  "networkError msg ep m now =
     \<lparr> message = msg, status = 0, statusText = ''Network Error'', endpoint = ep,
       httpMethod = m, timestamp = now, retryAfterMs = None \<rparr>"

definition unknownError :: "string \<Rightarrow> string \<Rightarrow> int \<Rightarrow> MarvinError" where
  "unknownError ep m now =
     \<lparr> message = ''Unknown error'', status = 0, statusText = ''Unknown Error'', endpoint = ep,
       httpMethod = m, timestamp = now, retryAfterMs = None \<rparr>"

definition toMarvinError :: "thrown \<Rightarrow> string \<Rightarrow> string \<Rightarrow> int \<Rightarrow> MarvinError" where
  "toMarvinError error ep m now =
     (case error of
        ThrowsMarvinError e \<Rightarrow> e
      | ThrowsError msg \<Rightarrow> networkError msg ep m now
      | ThrowsOther \<Rightarrow> unknownError ep m now)"

text \<open>The failure record built from a response that is not \<^verbatim>\<open>ok\<close>.\<close>

definition httpError :: "js_runtime \<Rightarrow> Response \<Rightarrow> string \<Rightarrow> string \<Rightarrow> int \<Rightarrow> int \<Rightarrow> MarvinError" where
  "httpError rt response ep m nowP nowS =
     \<lparr> message = ''HTTP '' @ numberToString (resp_status response) @ '': '' @ resp_statusText response,
       status = resp_status response,
       statusText = resp_statusText response,
       endpoint = ep,
       httpMethod = m,
       timestamp = nowS,
       retryAfterMs = parseRetryAfter rt nowP (resp_retryAfter response) \<rparr>"

definition buildRequest :: "MarvinClient \<Rightarrow> string \<Rightarrow> RequestInit \<Rightarrow> (string \<rightharpoonup> string) \<Rightarrow> Request" where
  "buildRequest this ep options additionalHeaders =
     \<lparr> req_url = baseUrl this @ ep,
       req_method = init_method options,
       req_body = init_body options,
       req_headers = [''Content-Type'' \<mapsto> ''application/json'', ''X-API-Token'' \<mapsto> apiToken this]
                       ++ additionalHeaders ++ init_headers options \<rparr>"

definition makeRequestCore ::
  "MarvinClient \<Rightarrow> js_runtime \<Rightarrow> world \<Rightarrow> string \<Rightarrow> RequestInit \<Rightarrow> (string \<rightharpoonup> string) \<Rightarrow>
   (Response \<Rightarrow> thrown + 'a) \<Rightarrow> run_state \<Rightarrow> (thrown + 'a) \<times> run_state" where
  "makeRequestCore this rt w ep options additionalHeaders parser s =
     (let m = methodOf options;
          req = buildRequest this ep options additionalHeaders;
          k = length (sent s);
          s' = s\<lparr> sent := sent s @ [req] \<rparr>
      in case fetchFn w k req of
           Inl error \<Rightarrow>
             (case error of
                ThrowsMarvinError e \<Rightarrow> (Inl (ThrowsMarvinError e), s')
              | ThrowsError msg \<Rightarrow> (Inl (ThrowsMarvinError (networkError msg ep m (nowStamp w k))), s')
              | ThrowsOther \<Rightarrow> (Inl (ThrowsMarvinError (unknownError ep m (nowStamp w k))), s'))
         | Inr response \<Rightarrow>
             if \<not> resp_ok response
             then (Inl (ThrowsMarvinError (httpError rt response ep m (nowParse w k) (nowStamp w k))), s')
             else (parser response, s'))"

subsection \<open>client.ts: the retry policy and the attempt loop\<close>

definition isNonRetryableClientError :: "MarvinError \<Rightarrow> bool" where
  "isNonRetryableClientError err = (isClientError err \<and> status err \<noteq> 429)"

definition shouldRetry :: "MarvinError \<Rightarrow> bool" where
  "shouldRetry err = (isRetryable err \<or> status err = 429)"

definition backoffDelay :: "MarvinClient \<Rightarrow> int \<Rightarrow> MarvinError \<Rightarrow> jsnumber" where
  "backoffDelay this attempt err =
     nullish (retryAfterMs err) (Finite (of_int (retryDelay this * 2 ^ nat attempt)))"

definition waitBeforeRetry :: "MarvinClient \<Rightarrow> int \<Rightarrow> MarvinError \<Rightarrow> run_state \<Rightarrow> run_state" where
  "waitBeforeRetry this attempt err s = s\<lparr> delays := delays s @ [backoffDelay this attempt err] \<rparr>"

text \<open>
  How a call ends: the parser's value is returned, a failure is thrown from inside the loop,
  or the loop is left and the statement after it throws.
\<close>

datatype 'a outcome =
    Returned 'a
  | Thrown MarvinError
  | AfterLoop MarvinError

definition retryExhausted :: "string \<Rightarrow> string \<Rightarrow> int \<Rightarrow> MarvinError" where
  "retryExhausted ep m now =
     \<lparr> message = ''Request failed after all retries'', status = 0, statusText = ''Retry Exhausted'',
       endpoint = ep, httpMethod = m, timestamp = now, retryAfterMs = None \<rparr>"

function attemptLoop ::
  "MarvinClient \<Rightarrow> js_runtime \<Rightarrow> world \<Rightarrow> string \<Rightarrow> RequestInit \<Rightarrow> (string \<rightharpoonup> string) \<Rightarrow>
   (Response \<Rightarrow> thrown + 'a) \<Rightarrow> int \<Rightarrow> MarvinError option \<Rightarrow> run_state \<Rightarrow> 'a outcome \<times> run_state" where
  "attemptLoop this rt w ep options additionalHeaders parser attempt lastError s =
     (if of_int attempt \<le> retries this then
        (case makeRequestCore this rt w ep options additionalHeaders parser s of
           (Inr v, s') \<Rightarrow> (Returned v, s')
         | (Inl caught, s') \<Rightarrow>
             (let err = toMarvinError caught ep (methodOf options) (nowStamp w (length (sent s)))
              in if isNonRetryableClientError err \<or> of_int attempt = retries this \<or> \<not> shouldRetry err
                 then (Thrown err, s')
                 else attemptLoop this rt w ep options additionalHeaders parser (attempt + 1) (Some err)
                        (waitBeforeRetry this attempt err s')))
      else (AfterLoop (nullish lastError
                         (retryExhausted ep (methodOf options) (nowStamp w (length (sent s))))), s))"
  by pat_completeness auto
termination
  by (relation "measure (\<lambda>(this, rt, w, ep, options, additionalHeaders, parser, attempt, lastError, s).
                    nat (\<lfloor>retries this\<rfloor> + 1 - attempt))")
     (auto simp: le_floor_iff)

text \<open>The equation of the loop is unfolded by hand, one attempt at a time.\<close>

declare attemptLoop.simps [simp del]

definition requestWithRetries ::
  "MarvinClient \<Rightarrow> js_runtime \<Rightarrow> world \<Rightarrow> string \<Rightarrow> RequestInit \<Rightarrow> (string \<rightharpoonup> string) \<Rightarrow>
   (Response \<Rightarrow> thrown + 'a) \<Rightarrow> run_state \<Rightarrow> 'a outcome \<times> run_state" where
  "requestWithRetries this rt w ep options additionalHeaders parser s =
     attemptLoop this rt w ep options additionalHeaders parser 0 None s"

definition request ::
  "MarvinClient \<Rightarrow> js_runtime \<Rightarrow> world \<Rightarrow> string \<Rightarrow> RequestInit \<Rightarrow> (string \<rightharpoonup> string) \<Rightarrow>
   run_state \<Rightarrow> jsvalue outcome \<times> run_state" where
  "request this rt w ep options additionalHeaders s =
     requestWithRetries this rt w ep options additionalHeaders resp_json s"

definition requestText ::
  "MarvinClient \<Rightarrow> js_runtime \<Rightarrow> world \<Rightarrow> string \<Rightarrow> RequestInit \<Rightarrow> (string \<rightharpoonup> string) \<Rightarrow>
   run_state \<Rightarrow> string outcome \<times> run_state" where
  "requestText this rt w ep options additionalHeaders s =
     requestWithRetries this rt w ep options additionalHeaders resp_text s"

definition get ::
  "MarvinClient \<Rightarrow> js_runtime \<Rightarrow> world \<Rightarrow> string \<Rightarrow> (string \<rightharpoonup> string) \<Rightarrow>
   run_state \<Rightarrow> jsvalue outcome \<times> run_state" where
  "get this rt w ep additionalHeaders s =
     request this rt w ep \<lparr> init_method = Some ''GET'', init_body = None, init_headers = Map.empty \<rparr>
       additionalHeaders s"

text \<open>The options \<^verbatim>\<open>post\<close> builds: the body is attached under \<^verbatim>\<open>if (body)\<close>.\<close>

definition postOptions :: "js_runtime \<Rightarrow> jsvalue \<Rightarrow> RequestInit" where
  "postOptions rt body =
     (let options = \<lparr> init_method = Some ''POST'', init_body = None, init_headers = Map.empty \<rparr>
      in if truthy body then options\<lparr> init_body := Some (JSON_stringify rt body) \<rparr> else options)"

definition post ::
  "MarvinClient \<Rightarrow> js_runtime \<Rightarrow> world \<Rightarrow> string \<Rightarrow> jsvalue \<Rightarrow> (string \<rightharpoonup> string) \<Rightarrow>
   run_state \<Rightarrow> jsvalue outcome \<times> run_state" where
  "post this rt w ep body additionalHeaders s =
     request this rt w ep (postOptions rt body) additionalHeaders s"

subsection \<open>Notions used to state the properties\<close>

text \<open>
  The failure record an attempt ends with, read off \<^verbatim>\<open>makeRequestCore\<close> and the
  \<^verbatim>\<open>catch\<close> block of \<^verbatim>\<open>requestWithRetries\<close>: \<open>res\<close> is what the transport did at
  invocation \<open>k\<close>. \<open>None\<close> means the attempt returned a value.
\<close>

definition candidateOf ::
  "js_runtime \<Rightarrow> world \<Rightarrow> string \<Rightarrow> string \<Rightarrow> (Response \<Rightarrow> thrown + 'a) \<Rightarrow> nat \<Rightarrow>
   thrown + Response \<Rightarrow> MarvinError option" where
  "candidateOf rt w ep m parser k res =
     (case res of
        Inl t \<Rightarrow> Some (toMarvinError t ep m (nowStamp w k))
      | Inr r \<Rightarrow>
          if \<not> resp_ok r then Some (httpError rt r ep m (nowParse w k) (nowStamp w k))
          else (case parser r of
                  Inl t \<Rightarrow> Some (toMarvinError t ep m (nowStamp w k))
                | Inr v \<Rightarrow> None))"

text \<open>The three invariants the specification states for a failure record.\<close>

definition failureInvariant :: "MarvinError \<Rightarrow> bool" where
  "failureInvariant e =
     (0 \<le> status e \<and> (case retryAfterMs e of None \<Rightarrow> True | Some h \<Rightarrow> nonNegative h)
      \<and> statusText e \<noteq> [])"

subsection \<open>Concrete clients, responses and worlds\<close>

definition testClient :: MarvinClient where
  "testClient = \<lparr> apiToken = ''retry-test-token'', baseUrl = ''https://serv.amazingmarvin.com/api'',
                  timeout = 10000, retries = 3, retryDelay = 100 \<rparr>"

text \<open>
  A client whose number of retries is not an integer; the constructor builds it from
  \<^verbatim>\<open>{ apiToken: 'retry-test-token', retries: 1.5, retryDelay: 100 }\<close>.
\<close>

definition fractionalClient :: MarvinClient where
  "fractionalClient = \<lparr> apiToken = ''retry-test-token'', baseUrl = ''https://serv.amazingmarvin.com/api'',
                        timeout = 10000, retries = 3 / 2, retryDelay = 100 \<rparr>"

text \<open>
  The doubles nearest to 1.005 and to 4.35, and a runtime that knows a few header values.
  Its product is the rounded one for the two doubles (1.005 * 1000 is the double just below
  1005, 4.35 * 1000 is 4350) and the exact one elsewhere. Its \<^verbatim>\<open>JSON.stringify\<close> is the
  right one on integers and on the empty object, the only bodies that are serialized below.
\<close>

definition double_1_005 :: real where
  "double_1_005 = 1131529406376837 / 1125899906842624"

definition double_4_35 :: real where
  "double_4_35 = 2448832297382707 / 562949953421312"

definition testRuntime :: js_runtime where
  "testRuntime =
     \<lparr> Number = (\<lambda>v. if v = ''2'' then Some (Finite 2)
                     else if v = ''1.5'' then Some (Finite (3 / 2))
                     else if v = ''1.005'' then Some (Finite double_1_005)
                     else if v = ''4.35'' then Some (Finite double_4_35)
                     else if v = ''-3'' then Some (Finite (- 3))
                     else if v = ''Infinity'' then Some PosInfinity
                     else None),
       DateGetTime = (\<lambda>v. if v = ''Wed, 21 Oct 2015 07:28:10 GMT'' then Some 1445412490000 else None),
       doubleTimes = (\<lambda>a b. if a = double_1_005 \<and> b = 1000 then Finite (8840073487319039 / 8796093022208)
                           else if a = double_4_35 \<and> b = 1000 then Finite 4350
                           else Finite (a * b)),
       JSON_stringify = (\<lambda>v. case v of JNumber n \<Rightarrow> numberToString n | _ \<Rightarrow> ''{}'') \<rparr>"

definition getOptions :: RequestInit where
  "getOptions = \<lparr> init_method = Some ''GET'', init_body = None, init_headers = Map.empty \<rparr>"

definition errorResponse :: "int \<Rightarrow> string \<Rightarrow> string option \<Rightarrow> Response" where
  "errorResponse st phrase hint =
     \<lparr> resp_ok = False, resp_status = st, resp_statusText = phrase, resp_retryAfter = hint,
       resp_json = Inl (ThrowsError ''Unexpected end of JSON input''),
       resp_text = Inr [] \<rparr>"

definition successResponse :: Response where
  "successResponse =
     \<lparr> resp_ok = True, resp_status = 200, resp_statusText = ''OK'', resp_retryAfter = None,
       resp_json = Inr (JObject [(''success'', JBoolean True)]),
       resp_text = Inr ''OK'' \<rparr>"

definition emptyBodyResponse :: Response where
  "emptyBodyResponse =
     \<lparr> resp_ok = True, resp_status = 200, resp_statusText = ''OK'', resp_retryAfter = None,
       resp_json = Inl (ThrowsError ''Unexpected end of JSON input''),
       resp_text = Inr [] \<rparr>"

text \<open>A transport that plays a script and answers \<open>dflt\<close> once the script is over.\<close>

definition scripted :: "(thrown + Response) list \<Rightarrow> (thrown + Response) \<Rightarrow> world" where
  "scripted script dflt =
     \<lparr> fetchFn = (\<lambda>k req. if k < length script then script ! k else dflt),
       nowParse = (\<lambda>k. 1445412480000 + 2 * int k),
       nowStamp = (\<lambda>k. 1445412480001 + 2 * int k) \<rparr>"

section \<open>Properties\<close>

subsection \<open>Construction\<close>

lemma trim_Nil_iff: "trim t = [] \<longleftrightarrow> (\<forall>c\<in>set t. isWhiteSpace c)"
proof
  assume "trim t = []"
  then have "dropWhile isWhiteSpace (rev (dropWhile isWhiteSpace t)) = []"
    by (simp add: trim_def)
  then have "\<forall>x\<in>set (rev (dropWhile isWhiteSpace t)). isWhiteSpace x"
    by (simp only: dropWhile_eq_Nil_conv)
  then have a: "\<forall>x\<in>set (dropWhile isWhiteSpace t). isWhiteSpace x"
    by (simp only: set_rev)
  have "dropWhile isWhiteSpace t = []"
  proof (rule ccontr)
    assume n: "dropWhile isWhiteSpace t \<noteq> []"
    then have "\<not> isWhiteSpace (hd (dropWhile isWhiteSpace t))" by (rule hd_dropWhile)
    moreover have "hd (dropWhile isWhiteSpace t) \<in> set (dropWhile isWhiteSpace t)" using n by simp
    ultimately show False using a by blast
  qed
  then show "\<forall>c\<in>set t. isWhiteSpace c" by (simp add: dropWhile_eq_Nil_conv)
next
  assume "\<forall>c\<in>set t. isWhiteSpace c"
  then have "dropWhile isWhiteSpace t = []" by (simp add: dropWhile_eq_Nil_conv)
  then show "trim t = []" by (simp only: trim_def rev.simps dropWhile.simps)
qed

lemma newMarvinClient_Inr:
  "newMarvinClient config = Inr this \<Longrightarrow>
     cfg_apiToken config = Some (apiToken this) \<and> apiToken this \<noteq> [] \<and> trim (apiToken this) \<noteq> []
     \<and> 0 < timeout this \<and> 0 \<le> retries this \<and> 0 < retryDelay this"
  by (auto simp: newMarvinClient_def Let_def split: option.splits if_splits)

subsection \<open>The retry policy and one attempt\<close>

lemma shouldRetry_iff: "shouldRetry e \<longleftrightarrow> (500 \<le> status e \<or> status e = 0 \<or> status e = 429)"
  by (simp add: shouldRetry_def isRetryable_def isServerError_def)

lemma nonRetryable_iff: "isNonRetryableClientError e \<longleftrightarrow> (400 \<le> status e \<and> status e < 500 \<and> status e \<noteq> 429)"
  by (simp add: isNonRetryableClientError_def isClientError_def)

lemma shouldRetry_not_nonRetryable: "shouldRetry e \<Longrightarrow> \<not> isNonRetryableClientError e"
  by (auto simp: shouldRetry_iff nonRetryable_iff)

lemma Math_max0_nonNegative: "nonNegative (Math_max0 x)"
  by (cases x) (simp_all add: Math_max0_def nonNegative_def)



lemma parseRetryAfter_nonNegative: "parseRetryAfter rt now value = Some h \<Longrightarrow> nonNegative h"
  by (auto simp: parseRetryAfter_def Math_max0_nonNegative split: option.splits if_splits)

lemma makeRequestCore_state:
  "snd (makeRequestCore this rt w ep options hs parser s)
     = s\<lparr> sent := sent s @ [buildRequest this ep options hs] \<rparr>"
  by (simp add: makeRequestCore_def Let_def split: sum.splits thrown.splits)

lemma makeRequestCore_candidate:
  "candidateOf rt w ep (methodOf options) parser (length (sent s))
       (fetchFn w (length (sent s)) (buildRequest this ep options hs))
     = (case fst (makeRequestCore this rt w ep options hs parser s) of
          Inl caught \<Rightarrow> Some (toMarvinError caught ep (methodOf options) (nowStamp w (length (sent s))))
        | Inr v \<Rightarrow> None)"
  by (simp add: makeRequestCore_def candidateOf_def toMarvinError_def Let_def
           split: sum.splits thrown.splits)

lemma candidateOf_invariant:
  assumes "candidateOf rt w ep m parser k res = Some e"
    and "\<forall>r. res = Inr r \<and> \<not> resp_ok r \<longrightarrow> 0 \<le> resp_status r \<and> resp_statusText r \<noteq> []"
    and "\<forall>e. res = Inl (ThrowsMarvinError e) \<longrightarrow> failureInvariant e"
    and "\<forall>r e. res = Inr r \<and> parser r = Inl (ThrowsMarvinError e) \<longrightarrow> failureInvariant e"
  shows "failureInvariant e"
  using assms
  by (auto simp: candidateOf_def failureInvariant_def toMarvinError_def networkError_def
        unknownError_def httpError_def parseRetryAfter_nonNegative
        split: sum.splits thrown.splits if_splits option.splits)

subsection \<open>Steps of the attempt loop\<close>

lemma attemptLoop_stop:
  assumes "of_int attempt \<le> retries this"
    and "candidateOf rt w ep (methodOf options) parser (length (sent s))
           (fetchFn w (length (sent s)) (buildRequest this ep options hs)) = Some err"
    and "isNonRetryableClientError err \<or> of_int attempt = retries this \<or> \<not> shouldRetry err"
  shows "attemptLoop this rt w ep options hs parser attempt lastError s
           = (Thrown err, s\<lparr> sent := sent s @ [buildRequest this ep options hs] \<rparr>)"
proof -
  obtain x s' where m: "makeRequestCore this rt w ep options hs parser s = (x, s')"
    by (cases "makeRequestCore this rt w ep options hs parser s")
  have s': "s' = s\<lparr> sent := sent s @ [buildRequest this ep options hs] \<rparr>"
    using makeRequestCore_state[of this rt w ep options hs parser s] m by simp
  from assms(2) m obtain caught where x: "x = Inl caught"
    and e: "toMarvinError caught ep (methodOf options) (nowStamp w (length (sent s))) = err"
    by (auto simp: makeRequestCore_candidate split: sum.splits)
  show ?thesis
    using assms(1,3) m x e s'
    by (subst attemptLoop.simps) (simp add: Let_def)
qed

lemma attemptLoop_retry:
  assumes "of_int attempt < retries this"
    and "candidateOf rt w ep (methodOf options) parser (length (sent s))
           (fetchFn w (length (sent s)) (buildRequest this ep options hs)) = Some err"
    and "\<not> isNonRetryableClientError err" and "shouldRetry err"
  shows "attemptLoop this rt w ep options hs parser attempt lastError s
           = attemptLoop this rt w ep options hs parser (attempt + 1) (Some err)
               (s\<lparr> sent := sent s @ [buildRequest this ep options hs],
                   delays := delays s @ [backoffDelay this attempt err] \<rparr>)"
proof -
  obtain x s' where m: "makeRequestCore this rt w ep options hs parser s = (x, s')"
    by (cases "makeRequestCore this rt w ep options hs parser s")
  have s': "s' = s\<lparr> sent := sent s @ [buildRequest this ep options hs] \<rparr>"
    using makeRequestCore_state[of this rt w ep options hs parser s] m by simp
  from assms(2) m obtain caught where x: "x = Inl caught"
    and e: "toMarvinError caught ep (methodOf options) (nowStamp w (length (sent s))) = err"
    by (auto simp: makeRequestCore_candidate split: sum.splits)
  show ?thesis
    using assms(1,3,4) m x e s'
    by (subst attemptLoop.simps) (simp add: Let_def waitBeforeRetry_def)
qed

lemma attemptLoop_return:
  assumes "of_int attempt \<le> retries this"
    and "fetchFn w (length (sent s)) (buildRequest this ep options hs) = Inr r"
    and "resp_ok r" and "parser r = Inr v"
  shows "attemptLoop this rt w ep options hs parser attempt lastError s
           = (Returned v, s\<lparr> sent := sent s @ [buildRequest this ep options hs] \<rparr>)"
  using assms
  by (subst attemptLoop.simps) (simp add: makeRequestCore_def Let_def)

lemma attemptLoop_success:
  assumes "of_int attempt \<le> retries this"
    and "candidateOf rt w ep (methodOf options) parser (length (sent s))
           (fetchFn w (length (sent s)) (buildRequest this ep options hs)) = None"
  shows "\<exists>v. attemptLoop this rt w ep options hs parser attempt lastError s
           = (Returned v, s\<lparr> sent := sent s @ [buildRequest this ep options hs] \<rparr>)"
proof -
  obtain x s' where m: "makeRequestCore this rt w ep options hs parser s = (x, s')"
    by (cases "makeRequestCore this rt w ep options hs parser s")
  have s': "s' = s\<lparr> sent := sent s @ [buildRequest this ep options hs] \<rparr>"
    using makeRequestCore_state[of this rt w ep options hs parser s] m by simp
  from assms(2) m obtain v where x: "x = Inr v"
    by (auto simp: makeRequestCore_candidate split: sum.splits)
  show ?thesis
    using assms(1) m x s'
    by (subst attemptLoop.simps) (simp add: Let_def)
qed

lemma attemptLoop_exit:
  assumes "\<not> of_int attempt \<le> retries this"
  shows "attemptLoop this rt w ep options hs parser attempt lastError s
           = (AfterLoop (nullish lastError
                (retryExhausted ep (methodOf options) (nowStamp w (length (sent s))))), s)"
  using assms by (subst attemptLoop.simps) simp

text \<open>Every attempt fails and is retryable, and the number of retries is the integer \<open>N\<close>.\<close>

lemma attemptLoop_persistent:
  assumes "retries this = of_int N" and "n = nat (N - attempt)" and "attempt \<le> N"
    and "\<forall>j \<le> n. \<exists>e. candidateOf rt w ep (methodOf options) parser (length (sent s) + j)
                        (fetchFn w (length (sent s) + j) (buildRequest this ep options hs)) = Some e
                     \<and> shouldRetry e"
  shows "\<exists>e. candidateOf rt w ep (methodOf options) parser (length (sent s) + n)
               (fetchFn w (length (sent s) + n) (buildRequest this ep options hs)) = Some e
           \<and> fst (attemptLoop this rt w ep options hs parser attempt lastError s) = Thrown e
           \<and> sent (snd (attemptLoop this rt w ep options hs parser attempt lastError s))
               = sent s @ replicate (n + 1) (buildRequest this ep options hs)
           \<and> length (delays (snd (attemptLoop this rt w ep options hs parser attempt lastError s)))
               = length (delays s) + n"
  using assms(2-4)
proof (induction n arbitrary: attempt lastError s)
  case 0
  then have eq: "of_int attempt = retries this" using assms(1) by simp
  then have le: "of_int attempt \<le> retries this" by simp
  from 0(3) obtain e where
    c: "candidateOf rt w ep (methodOf options) parser (length (sent s))
          (fetchFn w (length (sent s)) (buildRequest this ep options hs)) = Some e"
    by auto
  show ?case
    using attemptLoop_stop[OF le c, of lastError] eq c by simp
next
  case (Suc n)
  then have lt: "of_int attempt < retries this" using assms(1) by simp
  from Suc.prems(3) obtain e where
    c: "candidateOf rt w ep (methodOf options) parser (length (sent s))
          (fetchFn w (length (sent s)) (buildRequest this ep options hs)) = Some e"
    and r: "shouldRetry e"
    by (metis add.right_neutral le0)
  let ?s = "s\<lparr> sent := sent s @ [buildRequest this ep options hs],
               delays := delays s @ [backoffDelay this attempt e] \<rparr>"
  have step: "attemptLoop this rt w ep options hs parser attempt lastError s
           = attemptLoop this rt w ep options hs parser (attempt + 1) (Some e) ?s"
    using attemptLoop_retry[OF lt c shouldRetry_not_nonRetryable[OF r] r] .
  have n: "n = nat (N - (attempt + 1))" using Suc.prems(1) by simp
  have le: "attempt + 1 \<le> N" using Suc.prems(1) by simp
  have all: "\<forall>j \<le> n. \<exists>e. candidateOf rt w ep (methodOf options) parser (length (sent ?s) + j)
                        (fetchFn w (length (sent ?s) + j) (buildRequest this ep options hs)) = Some e
                     \<and> shouldRetry e"
  proof (intro allI impI)
    fix j assume "j \<le> n"
    then have "Suc j \<le> Suc n" by simp
    with Suc.prems(3) have "\<exists>e. candidateOf rt w ep (methodOf options) parser (length (sent s) + Suc j)
                        (fetchFn w (length (sent s) + Suc j) (buildRequest this ep options hs)) = Some e
                     \<and> shouldRetry e" by blast
    then show "\<exists>e. candidateOf rt w ep (methodOf options) parser (length (sent ?s) + j)
                        (fetchFn w (length (sent ?s) + j) (buildRequest this ep options hs)) = Some e
                     \<and> shouldRetry e"
      by simp
  qed
  from Suc.IH[OF n le all, of "Some e"] show ?case
    unfolding step by (simp add: replicate_app_Cons_same)
qed

text \<open>With an integral number of retries the loop is never left through its condition.\<close>

lemma attemptLoop_integral:
  assumes "retries this = of_int N" and "n = nat (N - attempt)" and "attempt \<le> N"
  shows "(\<exists>v. fst (attemptLoop this rt w ep options hs parser attempt lastError s) = Returned v)
       \<or> (\<exists>e. fst (attemptLoop this rt w ep options hs parser attempt lastError s) = Thrown e)"
  using assms(2-3)
proof (induction n arbitrary: attempt lastError s)
  case 0
  then have eq: "of_int attempt = retries this" using assms(1) by simp
  then have le: "of_int attempt \<le> retries this" by simp
  show ?case
  proof (cases "candidateOf rt w ep (methodOf options) parser (length (sent s))
           (fetchFn w (length (sent s)) (buildRequest this ep options hs))")
    case None
    from attemptLoop_success[OF le None, of lastError] show ?thesis by auto
  next
    case (Some e)
    from attemptLoop_stop[OF le Some, of lastError] eq show ?thesis by auto
  qed
next
  case (Suc n)
  then have lt: "of_int attempt < retries this" using assms(1) by simp
  then have le: "of_int attempt \<le> retries this" by simp
  show ?case
  proof (cases "candidateOf rt w ep (methodOf options) parser (length (sent s))
           (fetchFn w (length (sent s)) (buildRequest this ep options hs))")
    case None
    from attemptLoop_success[OF le None, of lastError] show ?thesis by auto
  next
    case (Some e)
    show ?thesis
    proof (cases "isNonRetryableClientError e \<or> \<not> shouldRetry e")
      case True
      then have "isNonRetryableClientError e \<or> of_int attempt = retries this \<or> \<not> shouldRetry e"
        by blast
      from attemptLoop_stop[OF le Some this, of lastError] show ?thesis by auto
    next
      case False
      then have a: "\<not> isNonRetryableClientError e" and b: "shouldRetry e" by auto
      have n: "n = nat (N - (attempt + 1))" using Suc.prems(1) by simp
      have le': "attempt + 1 \<le> N" using Suc.prems(1) by simp
      show ?thesis
        unfolding attemptLoop_retry[OF lt Some a b, of lastError]
        by (rule Suc.IH[OF n le'])
    qed
  qed
qed

text \<open>
  What a call can surface, for any number of retries: the candidate of one of its attempts,
  or the synthetic record when no attempt was made.
\<close>

lemma attemptLoop_surfaced:
  assumes "n = nat (\<lfloor>retries this\<rfloor> + 1 - attempt)"
    and "\<forall>e. lastError = Some e \<longrightarrow>
           (\<exists>k. candidateOf rt w ep (methodOf options) parser k
                   (fetchFn w k (buildRequest this ep options hs)) = Some e)"
    and "fst (attemptLoop this rt w ep options hs parser attempt lastError s) = Thrown e
         \<or> fst (attemptLoop this rt w ep options hs parser attempt lastError s) = AfterLoop e"
  shows "(\<exists>k. candidateOf rt w ep (methodOf options) parser k
                (fetchFn w k (buildRequest this ep options hs)) = Some e)
       \<or> (\<exists>now. e = retryExhausted ep (methodOf options) now)"
  using assms
proof (induction n arbitrary: attempt lastError s)
  case 0
  then have "\<not> attempt \<le> \<lfloor>retries this\<rfloor>" by simp
  then have ex: "\<not> of_int attempt \<le> retries this" by (simp add: le_floor_iff)
  from "0.prems"(2,3) show ?case
    unfolding attemptLoop_exit[OF ex]
    by (cases lastError) (auto simp: nullish_def)
next
  case (Suc n)
  then have "attempt \<le> \<lfloor>retries this\<rfloor>" by simp
  then have le: "of_int attempt \<le> retries this" by (simp add: le_floor_iff)
  show ?case
  proof (cases "candidateOf rt w ep (methodOf options) parser (length (sent s))
           (fetchFn w (length (sent s)) (buildRequest this ep options hs))")
    case None
    from attemptLoop_success[OF le None, of lastError] Suc.prems(3) show ?thesis by auto
  next
    case (Some c)
    show ?thesis
    proof (cases "isNonRetryableClientError c \<or> of_int attempt = retries this \<or> \<not> shouldRetry c")
      case True
      from attemptLoop_stop[OF le Some True, of lastError] Suc.prems(3) Some show ?thesis by auto
    next
      case False
      then have a: "\<not> isNonRetryableClientError c" and b: "shouldRetry c"
        and lt: "of_int attempt < retries this" using le by auto
      have n: "n = nat (\<lfloor>retries this\<rfloor> + 1 - (attempt + 1))" using Suc.prems(1) by simp
      have q: "\<forall>e. Some c = Some e \<longrightarrow>
           (\<exists>k. candidateOf rt w ep (methodOf options) parser k
                   (fetchFn w k (buildRequest this ep options hs)) = Some e)"
        using Some by auto
      from Suc.prems(3) show ?thesis
        unfolding attemptLoop_retry[OF lt Some a b, of lastError]
        by (rule Suc.IH[OF n q])
    qed
  qed
qed

lemma requestWithRetries_surfaced:
  assumes "fst (requestWithRetries this rt w ep options hs parser s) = Thrown e
         \<or> fst (requestWithRetries this rt w ep options hs parser s) = AfterLoop e"
  shows "(\<exists>k. candidateOf rt w ep (methodOf options) parser k
                (fetchFn w k (buildRequest this ep options hs)) = Some e)
       \<or> (\<exists>now. e = retryExhausted ep (methodOf options) now)"
  using attemptLoop_surfaced[OF refl, of None rt w ep options parser this hs 0 s e] assms
  by (simp add: requestWithRetries_def)

text \<open>Every request of a call is the one built from the call's arguments.\<close>

lemma attemptLoop_sent:
  assumes "n = nat (\<lfloor>retries this\<rfloor> + 1 - attempt)"
  shows "\<exists>m. sent (snd (attemptLoop this rt w ep options hs parser attempt lastError s))
               = sent s @ replicate m (buildRequest this ep options hs)
           \<and> (of_int attempt \<le> retries this \<longrightarrow> 0 < m)"
  using assms
proof (induction n arbitrary: attempt lastError s)
  case 0
  then have "\<not> attempt \<le> \<lfloor>retries this\<rfloor>" by simp
  then have ex: "\<not> of_int attempt \<le> retries this" by (simp add: le_floor_iff)
  show ?case
    unfolding attemptLoop_exit[OF ex] using ex by (intro exI[of _ 0]) simp
next
  case (Suc n)
  then have "attempt \<le> \<lfloor>retries this\<rfloor>" by simp
  then have le: "of_int attempt \<le> retries this" by (simp add: le_floor_iff)
  show ?case
  proof (cases "candidateOf rt w ep (methodOf options) parser (length (sent s))
           (fetchFn w (length (sent s)) (buildRequest this ep options hs))")
    case None
    from attemptLoop_success[OF le None, of lastError] obtain v where
      "attemptLoop this rt w ep options hs parser attempt lastError s
         = (Returned v, s\<lparr> sent := sent s @ [buildRequest this ep options hs] \<rparr>)" ..
    then show ?thesis by (intro exI[of _ 1]) simp
  next
    case (Some c)
    show ?thesis
    proof (cases "isNonRetryableClientError c \<or> of_int attempt = retries this \<or> \<not> shouldRetry c")
      case True
      from attemptLoop_stop[OF le Some True, of lastError]
      show ?thesis by (intro exI[of _ 1]) simp
    next
      case False
      then have a: "\<not> isNonRetryableClientError c" and b: "shouldRetry c"
        and lt: "of_int attempt < retries this" using le by auto
      have n: "n = nat (\<lfloor>retries this\<rfloor> + 1 - (attempt + 1))" using Suc.prems(1) by simp
      let ?s = "s\<lparr> sent := sent s @ [buildRequest this ep options hs],
                   delays := delays s @ [backoffDelay this attempt c] \<rparr>"
      from Suc.IH[OF n, of "Some c" ?s] obtain m where
        "sent (snd (attemptLoop this rt w ep options hs parser (attempt + 1) (Some c) ?s))
           = sent ?s @ replicate m (buildRequest this ep options hs)" by blast
      then show ?thesis
        unfolding attemptLoop_retry[OF lt Some a b, of lastError]
        by (intro exI[of _ "Suc m"]) (simp add: replicate_app_Cons_same)
    qed
  qed
qed

subsection \<open>Unfolding sets for runs on concrete worlds\<close>

lemmas fixture_defs = testClient_def testRuntime_def double_1_005_def double_4_35_def getOptions_def
  errorResponse_def successResponse_def scripted_def initial_def

lemmas core_defs = request_def requestText_def requestWithRetries_def makeRequestCore_def
  buildRequest_def methodOf_def orElse_def nullish_def toMarvinError_def networkError_def
  unknownError_def httpError_def parseRetryAfter_def times1000_def Math_floor_def Math_max0_def
  numberToString_def natToString.simps digitChar_def isNonRetryableClientError_def isClientError_def
  shouldRetry_def isRetryable_def isServerError_def waitBeforeRetry_def backoffDelay_def

subsection \<open>Parser faults\<close>

text \<open>
  C1 (as amended). A fault thrown by the parser on a 2xx response is caught by the
  \<^verbatim>\<open>catch\<close> block of \<^verbatim>\<open>requestWithRetries\<close> like any other fault of the attempt. When it is
  not itself a failure record it is wrapped as a failure with status 0 (\<^verbatim>\<open>Network Error\<close> with
  the fault's message, or \<^verbatim>\<open>Unknown Error\<close>), which is retryable. So when the transport
  answers 2xx and the parser fails in this way on every attempt, the transport is invoked
  \<open>N + 1\<close> times, where \<open>N\<close> is the configured number of retries, and the call fails with
  the wrapped fault of the last attempt.
\<close>

theorem C1_parser_fault_retried:
  assumes "retries this = of_nat N"
    and "\<forall>k \<le> N.
           \<exists>r t. fetchFn w k (buildRequest this ep options hs) = Inr r \<and> resp_ok r
               \<and> parser r = Inl t \<and> (\<forall>e. t \<noteq> ThrowsMarvinError e)"
  shows "\<exists>r t. fetchFn w N (buildRequest this ep options hs) = Inr r
           \<and> parser r = Inl t
           \<and> fst (requestWithRetries this rt w ep options hs parser initial)
               = Thrown (toMarvinError t ep (methodOf options) (nowStamp w N))
           \<and> status (toMarvinError t ep (methodOf options) (nowStamp w N)) = 0
           \<and> length (sent (snd (requestWithRetries this rt w ep options hs parser initial)))
               = N + 1"
proof -
  have wrap: "\<And>t m now. \<forall>e. t \<noteq> ThrowsMarvinError e \<Longrightarrow> status (toMarvinError t ep m now) = 0"
    by (simp add: toMarvinError_def networkError_def unknownError_def split: thrown.splits)
  have r: "retries this = of_int (int N)" using assms(1) by simp
  have n: "N = nat (int N - 0)" by simp
  have le: "(0::int) \<le> int N" by simp
  have all: "\<forall>j \<le> N.
           \<exists>e. candidateOf rt w ep (methodOf options) parser (length (sent initial) + j)
                  (fetchFn w (length (sent initial) + j) (buildRequest this ep options hs)) = Some e
              \<and> shouldRetry e"
  proof (intro allI impI)
    fix j assume "j \<le> N"
    with assms(2) obtain r t where
      "fetchFn w j (buildRequest this ep options hs) = Inr r" "resp_ok r" "parser r = Inl t"
      "\<forall>e. t \<noteq> ThrowsMarvinError e" by blast
    then show "\<exists>e. candidateOf rt w ep (methodOf options) parser (length (sent initial) + j)
                  (fetchFn w (length (sent initial) + j) (buildRequest this ep options hs)) = Some e
              \<and> shouldRetry e"
      using wrap by (simp add: initial_def candidateOf_def shouldRetry_iff)
  qed
  from assms(2) obtain r t where
    last: "fetchFn w N (buildRequest this ep options hs) = Inr r" "resp_ok r"
      "parser r = Inl t" "\<forall>e. t \<noteq> ThrowsMarvinError e" by blast
  from attemptLoop_persistent[OF r n le all, of None] last wrap[OF last(4)]
  show ?thesis
    by (auto simp: requestWithRetries_def initial_def candidateOf_def)
qed

theorem C1_parser_fault_retried_witness:
  "fst (requestWithRetries testClient testRuntime (scripted [] (Inr emptyBodyResponse)) ''/kudos''
          getOptions Map.empty resp_json initial)
     = Thrown \<lparr> message = ''Unexpected end of JSON input'', status = 0, statusText = ''Network Error'',
                endpoint = ''/kudos'', httpMethod = ''GET'', timestamp = 1445412480007,
                retryAfterMs = None \<rparr>
   \<and> length (sent (snd (requestWithRetries testClient testRuntime (scripted [] (Inr emptyBodyResponse))
                          ''/kudos'' getOptions Map.empty resp_json initial))) = 4"
proof -
  have le: "retries testClient = of_nat 3" by (simp add: testClient_def)
  have hyp: "\<forall>k \<le> (3::nat).
           \<exists>r t. fetchFn (scripted [] (Inr emptyBodyResponse)) k
                    (buildRequest testClient ''/kudos'' getOptions Map.empty) = Inr r \<and> resp_ok r
               \<and> resp_json r = Inl t \<and> (\<forall>e. t \<noteq> ThrowsMarvinError e)"
    by (simp add: fixture_defs emptyBodyResponse_def)
  from C1_parser_fault_retried [OF le hyp, of testRuntime]
  show ?thesis
    by (auto simp: fixture_defs emptyBodyResponse_def methodOf_def orElse_def toMarvinError_def
          networkError_def)
qed

text \<open>
  The scenario of the specification, on the code: the transport always answers 200, the JSON
  reader always throws "Unexpected end of JSON input", three retries are configured. The
  transport is invoked four times, after delays of 100, 200 and 400 ms, and what is surfaced is
  a failure record with status 0 and \<^verbatim>\<open>Network Error\<close>, not the fault itself.
\<close>

theorem C1_counterexample:
  "fst (request testClient testRuntime (scripted [] (Inr emptyBodyResponse)) ''/kudos'' getOptions
          Map.empty initial)
     = Thrown \<lparr> message = ''Unexpected end of JSON input'', status = 0, statusText = ''Network Error'',
                endpoint = ''/kudos'', httpMethod = ''GET'', timestamp = 1445412480007,
                retryAfterMs = None \<rparr>
   \<and> length (sent (snd (request testClient testRuntime (scripted [] (Inr emptyBodyResponse)) ''/kudos''
                          getOptions Map.empty initial))) = 4
   \<and> delays (snd (request testClient testRuntime (scripted [] (Inr emptyBodyResponse)) ''/kudos''
                          getOptions Map.empty initial)) = [Finite 100, Finite 200, Finite 400]"
  by (simp add: fixture_defs emptyBodyResponse_def core_defs attemptLoop.simps Let_def)

subsection \<open>The decision after a failed attempt\<close>

text \<open>
  C2 (as amended). Let \<open>err\<close> be the candidate failure of attempt \<open>attempt\<close>. The call fails
  at once with \<open>err\<close> when \<open>err\<close> is a client error other than 429, when
  \<open>attempt = retries\<close>, or when the status of \<open>err\<close> is none of 429, 0 and the statuses
  from 500 up (so a status below 400 other than 0 fails at once too). Otherwise the loop waits
  and goes on with attempt \<open>attempt + 1\<close>.
\<close>

theorem C2_decision:
  assumes "of_int attempt \<le> retries this"
    and "candidateOf rt w ep (methodOf options) parser (length (sent s))
           (fetchFn w (length (sent s)) (buildRequest this ep options hs)) = Some err"
  shows "((400 \<le> status err \<and> status err < 500 \<and> status err \<noteq> 429)
            \<or> of_int attempt = retries this
            \<or> \<not> (500 \<le> status err \<or> status err = 0 \<or> status err = 429)
          \<longrightarrow> attemptLoop this rt w ep options hs parser attempt lastError s
                = (Thrown err, s\<lparr> sent := sent s @ [buildRequest this ep options hs] \<rparr>))
       \<and> (of_int attempt \<noteq> retries this \<and> (500 \<le> status err \<or> status err = 0 \<or> status err = 429)
          \<longrightarrow> attemptLoop this rt w ep options hs parser attempt lastError s
                = attemptLoop this rt w ep options hs parser (attempt + 1) (Some err)
                    (waitBeforeRetry this attempt err
                       (s\<lparr> sent := sent s @ [buildRequest this ep options hs] \<rparr>)))"
proof (intro conjI impI)
  assume "(400 \<le> status err \<and> status err < 500 \<and> status err \<noteq> 429)
            \<or> of_int attempt = retries this
            \<or> \<not> (500 \<le> status err \<or> status err = 0 \<or> status err = 429)"
  then have "isNonRetryableClientError err \<or> of_int attempt = retries this \<or> \<not> shouldRetry err"
    by (simp add: shouldRetry_iff nonRetryable_iff)
  from attemptLoop_stop[OF assms this]
  show "attemptLoop this rt w ep options hs parser attempt lastError s
          = (Thrown err, s\<lparr> sent := sent s @ [buildRequest this ep options hs] \<rparr>)" .
next
  assume a: "of_int attempt \<noteq> retries this \<and> (500 \<le> status err \<or> status err = 0 \<or> status err = 429)"
  then have lt: "of_int attempt < retries this" using assms(1) by simp
  from a have r: "shouldRetry err" by (simp add: shouldRetry_iff)
  from attemptLoop_retry[OF lt assms(2) shouldRetry_not_nonRetryable[OF r] r]
  show "attemptLoop this rt w ep options hs parser attempt lastError s
          = attemptLoop this rt w ep options hs parser (attempt + 1) (Some err)
              (waitBeforeRetry this attempt err
                 (s\<lparr> sent := sent s @ [buildRequest this ep options hs] \<rparr>))"
    by (simp add: waitBeforeRetry_def)
qed

theorem C2_decision_witness:
  "attemptLoop testClient testRuntime
       (scripted [Inr (errorResponse 503 ''Service Unavailable'' None)] (Inr successResponse))
       ''/todayItems'' getOptions Map.empty resp_json 0 None initial
     = attemptLoop testClient testRuntime
         (scripted [Inr (errorResponse 503 ''Service Unavailable'' None)] (Inr successResponse))
         ''/todayItems'' getOptions Map.empty resp_json 1
         (Some \<lparr> message = ''HTTP 503: Service Unavailable'', status = 503,
                  statusText = ''Service Unavailable'', endpoint = ''/todayItems'', httpMethod = ''GET'',
                  timestamp = 1445412480001, retryAfterMs = None \<rparr>)
         \<lparr> sent = [buildRequest testClient ''/todayItems'' getOptions Map.empty], delays = [Finite 100] \<rparr>
   \<and> attemptLoop testClient testRuntime
       (scripted [Inr (errorResponse 503 ''Service Unavailable'' None)] (Inr successResponse))
       ''/todayItems'' getOptions Map.empty resp_json 3 None initial
     = (Thrown \<lparr> message = ''HTTP 503: Service Unavailable'', status = 503,
                  statusText = ''Service Unavailable'', endpoint = ''/todayItems'', httpMethod = ''GET'',
                  timestamp = 1445412480001, retryAfterMs = None \<rparr>,
        \<lparr> sent = [buildRequest testClient ''/todayItems'' getOptions Map.empty], delays = [] \<rparr>)"
  using C2_decision [of 0 testClient testRuntime
           "scripted [Inr (errorResponse 503 ''Service Unavailable'' None)] (Inr successResponse)"
           "''/todayItems''" getOptions resp_json initial Map.empty
           "\<lparr> message = ''HTTP 503: Service Unavailable'', status = 503,
                  statusText = ''Service Unavailable'', endpoint = ''/todayItems'', httpMethod = ''GET'',
                  timestamp = 1445412480001, retryAfterMs = None \<rparr>" None]
        C2_decision [of 3 testClient testRuntime
           "scripted [Inr (errorResponse 503 ''Service Unavailable'' None)] (Inr successResponse)"
           "''/todayItems''" getOptions resp_json initial Map.empty
           "\<lparr> message = ''HTTP 503: Service Unavailable'', status = 503,
                  statusText = ''Service Unavailable'', endpoint = ''/todayItems'', httpMethod = ''GET'',
                  timestamp = 1445412480001, retryAfterMs = None \<rparr>" None]
  by (simp add: candidateOf_def fixture_defs methodOf_def orElse_def httpError_def parseRetryAfter_def
        numberToString_def natToString.simps digitChar_def waitBeforeRetry_def backoffDelay_def
        nullish_def)

text \<open>
  A status outside 4xx, 5xx and 0 is not retried: with three retries left, a response
  304 fails the call after one invocation of the transport.
\<close>

theorem C2_counterexample:
  "retries testClient = 3
   \<and> fst (request testClient testRuntime
            (scripted [Inr (errorResponse 304 ''Not Modified'' None)] (Inr successResponse))
            ''/todayItems'' getOptions Map.empty initial)
     = Thrown \<lparr> message = ''HTTP 304: Not Modified'', status = 304, statusText = ''Not Modified'',
                endpoint = ''/todayItems'', httpMethod = ''GET'', timestamp = 1445412480001,
                retryAfterMs = None \<rparr>
   \<and> length (sent (snd (request testClient testRuntime
            (scripted [Inr (errorResponse 304 ''Not Modified'' None)] (Inr successResponse))
            ''/todayItems'' getOptions Map.empty initial))) = 1"
  by (simp add: fixture_defs core_defs attemptLoop.simps Let_def)

text \<open>
  C3. When the transport answers the first attempt of a call with a response that is not
  \<^verbatim>\<open>ok\<close> and whose status lies in 400..499 and is not 429, the call fails with the failure
  record built from that response, and the transport has been invoked exactly once more than
  before the call, whatever non-negative number of retries is configured.
\<close>

theorem C3_client_error_fails_once:
  assumes "0 \<le> retries this"
    and "fetchFn w (length (sent s)) (buildRequest this ep options hs) = Inr r"
    and "\<not> resp_ok r"
    and "400 \<le> resp_status r" and "resp_status r \<le> 499" and "resp_status r \<noteq> 429"
  shows "requestWithRetries this rt w ep options hs parser s
           = (Thrown (httpError rt r ep (methodOf options)
                        (nowParse w (length (sent s))) (nowStamp w (length (sent s)))),
              s\<lparr> sent := sent s @ [buildRequest this ep options hs] \<rparr>)"
proof -
  let ?e = "httpError rt r ep (methodOf options) (nowParse w (length (sent s))) (nowStamp w (length (sent s)))"
  have c: "candidateOf rt w ep (methodOf options) parser (length (sent s))
             (fetchFn w (length (sent s)) (buildRequest this ep options hs)) = Some ?e"
    using assms(2,3) by (simp add: candidateOf_def)
  have "isNonRetryableClientError ?e"
    using assms(4-6) by (simp add: nonRetryable_iff httpError_def)
  then have n: "isNonRetryableClientError ?e \<or> of_int 0 = retries this \<or> \<not> shouldRetry ?e" by blast
  have le: "of_int 0 \<le> retries this" using assms(1) by simp
  from attemptLoop_stop[OF le c n] show ?thesis
    by (simp add: requestWithRetries_def)
qed

theorem C3_client_error_fails_once_witness:
  "requestWithRetries testClient testRuntime
       (scripted [] (Inr (errorResponse 404 ''Not Found'' None))) ''/habit?id=nonexistent''
       getOptions Map.empty resp_json initial
     = (Thrown \<lparr> message = ''HTTP 404: Not Found'', status = 404, statusText = ''Not Found'',
                  endpoint = ''/habit?id=nonexistent'', httpMethod = ''GET'',
                  timestamp = 1445412480001, retryAfterMs = None \<rparr>,
        \<lparr> sent = [buildRequest testClient ''/habit?id=nonexistent'' getOptions Map.empty],
          delays = [] \<rparr>)"
  using C3_client_error_fails_once [of testClient "scripted [] (Inr (errorResponse 404 ''Not Found'' None))"
          initial "''/habit?id=nonexistent''" getOptions Map.empty
          "errorResponse 404 ''Not Found'' None" testRuntime resp_json]
  by (simp add: fixture_defs methodOf_def orElse_def httpError_def parseRetryAfter_def
        numberToString_def natToString.simps digitChar_def)

text \<open>
  C4. With \<open>retries = N\<close>, a natural number, when each of the attempts \<open>0..N\<close> ends with a failure whose
  status is 429, 0 or at least 500, the call invokes the transport exactly \<open>N + 1\<close> times and
  fails with the failure record of attempt \<open>N\<close>, the last one.
\<close>

theorem C4_exhaustion:
  assumes "retries this = of_nat N"
    and "\<forall>k \<le> N.
           \<exists>e. candidateOf rt w ep (methodOf options) parser k
                  (fetchFn w k (buildRequest this ep options hs)) = Some e
              \<and> (500 \<le> status e \<or> status e = 429 \<or> status e = 0)"
  shows "\<exists>e. candidateOf rt w ep (methodOf options) parser N
                (fetchFn w N (buildRequest this ep options hs)) = Some e
           \<and> fst (requestWithRetries this rt w ep options hs parser initial) = Thrown e
           \<and> length (sent (snd (requestWithRetries this rt w ep options hs parser initial)))
               = N + 1"
proof -
  have r: "retries this = of_int (int N)" using assms(1) by simp
  have n: "N = nat (int N - 0)" by simp
  have le: "(0::int) \<le> int N" by simp
  have all: "\<forall>j \<le> N.
           \<exists>e. candidateOf rt w ep (methodOf options) parser (length (sent initial) + j)
                  (fetchFn w (length (sent initial) + j) (buildRequest this ep options hs)) = Some e
              \<and> shouldRetry e"
    using assms(2) by (simp add: initial_def shouldRetry_iff) blast
  from attemptLoop_persistent[OF r n le all, of None]
  show ?thesis
    by (auto simp: requestWithRetries_def initial_def)
qed

theorem C4_exhaustion_witness:
  "fst (requestWithRetries testClient testRuntime
          (scripted [Inr (errorResponse 500 ''Internal Server Error'' None),
                     Inl (ThrowsError ''Network error''),
                     Inr (errorResponse 429 ''Too Many Requests'' None)]
             (Inr (errorResponse 503 ''Service Unavailable'' None)))
          ''/todayItems'' getOptions Map.empty resp_json initial)
     = Thrown \<lparr> message = ''HTTP 503: Service Unavailable'', status = 503,
                statusText = ''Service Unavailable'', endpoint = ''/todayItems'', httpMethod = ''GET'',
                timestamp = 1445412480007, retryAfterMs = None \<rparr>
   \<and> length (sent (snd (requestWithRetries testClient testRuntime
          (scripted [Inr (errorResponse 500 ''Internal Server Error'' None),
                     Inl (ThrowsError ''Network error''),
                     Inr (errorResponse 429 ''Too Many Requests'' None)]
             (Inr (errorResponse 503 ''Service Unavailable'' None)))
          ''/todayItems'' getOptions Map.empty resp_json initial))) = 4"
proof -
  let ?w = "scripted [Inr (errorResponse 500 ''Internal Server Error'' None),
                     Inl (ThrowsError ''Network error''),
                     Inr (errorResponse 429 ''Too Many Requests'' None)]
             (Inr (errorResponse 503 ''Service Unavailable'' None))"
  have r: "retries testClient = of_nat 3" by (simp add: testClient_def)
  have hyp: "\<forall>k \<le> (3::nat).
           \<exists>e. candidateOf testRuntime ?w ''/todayItems'' (methodOf getOptions) resp_json k
                  (fetchFn ?w k (buildRequest testClient ''/todayItems'' getOptions Map.empty)) = Some e
              \<and> (500 \<le> status e \<or> status e = 429 \<or> status e = 0)"
  proof (intro allI impI)
    fix k :: nat assume "k \<le> 3"
    then have "k = 0 \<or> k = 1 \<or> k = 2 \<or> k = 3" by arith
    then show "\<exists>e. candidateOf testRuntime ?w ''/todayItems'' (methodOf getOptions) resp_json k
                  (fetchFn ?w k (buildRequest testClient ''/todayItems'' getOptions Map.empty)) = Some e
              \<and> (500 \<le> status e \<or> status e = 429 \<or> status e = 0)"
      by (auto simp: candidateOf_def fixture_defs httpError_def toMarvinError_def networkError_def)
  qed
  from C4_exhaustion [OF r hyp] show ?thesis
    by (simp add: candidateOf_def fixture_defs methodOf_def orElse_def httpError_def parseRetryAfter_def
        numberToString_def natToString.simps digitChar_def)
qed

subsection \<open>Delays and retry hints\<close>

text \<open>
  C5. When attempt \<open>attempt\<close> ends with the candidate \<open>err\<close> and is followed by a retry, the
  loop goes on with attempt \<open>attempt + 1\<close> after exactly one more delay: the hint
  \<open>retryAfterMs err\<close> when it is present, and \<open>retryDelay * 2 ^ attempt\<close> otherwise.
\<close>

theorem C5_retry_delay:
  assumes "0 \<le> attempt" and "of_int attempt < retries this"
    and "candidateOf rt w ep (methodOf options) parser (length (sent s))
           (fetchFn w (length (sent s)) (buildRequest this ep options hs)) = Some err"
    and "\<not> isNonRetryableClientError err" and "shouldRetry err"
  shows "attemptLoop this rt w ep options hs parser attempt lastError s
           = attemptLoop this rt w ep options hs parser (attempt + 1) (Some err)
               (s\<lparr> sent := sent s @ [buildRequest this ep options hs],
                   delays := delays s @ [case retryAfterMs err of
                                           Some hint \<Rightarrow> hint
                                         | None \<Rightarrow> Finite (of_int (retryDelay this * 2 ^ nat attempt))] \<rparr>)"
  using attemptLoop_retry[OF assms(2-5), of lastError]
  by (cases "retryAfterMs err") (simp_all add: backoffDelay_def nullish_def)

theorem C5_retry_delay_witness:
  "attemptLoop testClient testRuntime
       (scripted [Inr (errorResponse 429 ''Too Many Requests'' (Some ''2''))] (Inr successResponse))
       ''/todayItems'' getOptions Map.empty resp_json 0 None initial
     = (Returned (JObject [(''success'', JBoolean True)]),
        \<lparr> sent = [buildRequest testClient ''/todayItems'' getOptions Map.empty,
                  buildRequest testClient ''/todayItems'' getOptions Map.empty],
          delays = [Finite 2000] \<rparr>)
   \<and> attemptLoop testClient testRuntime
       (scripted [Inl (ThrowsOther), Inr (errorResponse 500 ''Internal Server Error'' None)]
          (Inr successResponse))
       ''/todayItems'' getOptions Map.empty resp_json 1 None
       \<lparr> sent = [buildRequest testClient ''/todayItems'' getOptions Map.empty], delays = [Finite 100] \<rparr>
     = (Returned (JObject [(''success'', JBoolean True)]),
        \<lparr> sent = [buildRequest testClient ''/todayItems'' getOptions Map.empty,
                  buildRequest testClient ''/todayItems'' getOptions Map.empty,
                  buildRequest testClient ''/todayItems'' getOptions Map.empty],
          delays = [Finite 100, Finite 200] \<rparr>)"
proof -
  let ?req = "buildRequest testClient ''/todayItems'' getOptions Map.empty"
  let ?w1 = "scripted [Inr (errorResponse 429 ''Too Many Requests'' (Some ''2''))] (Inr successResponse)"
  let ?w2 = "scripted [Inl (ThrowsOther), Inr (errorResponse 500 ''Internal Server Error'' None)]
          (Inr successResponse)"
  let ?e1 = "\<lparr> message = ''HTTP 429: Too Many Requests'', status = 429,
                statusText = ''Too Many Requests'', endpoint = ''/todayItems'', httpMethod = ''GET'',
                timestamp = 1445412480001, retryAfterMs = Some (Finite 2000) \<rparr>"
  let ?e2 = "\<lparr> message = ''HTTP 500: Internal Server Error'', status = 500,
                statusText = ''Internal Server Error'', endpoint = ''/todayItems'', httpMethod = ''GET'',
                timestamp = 1445412480003, retryAfterMs = None \<rparr>"
  have a: "attemptLoop testClient testRuntime ?w1 ''/todayItems'' getOptions Map.empty resp_json 0 None initial
     = attemptLoop testClient testRuntime ?w1 ''/todayItems'' getOptions Map.empty resp_json 1 (Some ?e1)
         \<lparr> sent = [?req], delays = [Finite 2000] \<rparr>"
    using C5_retry_delay [of 0 testClient testRuntime ?w1 "''/todayItems''" getOptions resp_json initial
             Map.empty ?e1 None]
    by (simp add: candidateOf_def fixture_defs methodOf_def orElse_def httpError_def parseRetryAfter_def
          times1000_def Math_floor_def Math_max0_def
          numberToString_def natToString.simps digitChar_def nonRetryable_iff shouldRetry_iff)
  have b: "attemptLoop testClient testRuntime ?w2 ''/todayItems'' getOptions Map.empty resp_json 1 None
         \<lparr> sent = [?req], delays = [Finite 100] \<rparr>
     = attemptLoop testClient testRuntime ?w2 ''/todayItems'' getOptions Map.empty resp_json 2 (Some ?e2)
         \<lparr> sent = [?req, ?req], delays = [Finite 100, Finite 200] \<rparr>"
    using C5_retry_delay [of 1 testClient testRuntime ?w2 "''/todayItems''" getOptions resp_json
             "\<lparr> sent = [?req], delays = [Finite 100] \<rparr>" Map.empty ?e2 None]
    by (simp add: candidateOf_def fixture_defs methodOf_def orElse_def httpError_def parseRetryAfter_def
          numberToString_def natToString.simps digitChar_def nonRetryable_iff shouldRetry_iff)
  have c: "attemptLoop testClient testRuntime ?w1 ''/todayItems'' getOptions Map.empty resp_json 1 (Some ?e1)
         \<lparr> sent = [?req], delays = [Finite 2000] \<rparr>
       = (Returned (JObject [(''success'', JBoolean True)]),
          \<lparr> sent = [?req, ?req], delays = [Finite 2000] \<rparr>)"
    using attemptLoop_return [of 1 testClient ?w1 "\<lparr> sent = [?req], delays = [Finite 2000] \<rparr>"
             "''/todayItems''" getOptions Map.empty successResponse resp_json
             "JObject [(''success'', JBoolean True)]" testRuntime "Some ?e1"]
    by (simp add: fixture_defs)
  have d: "attemptLoop testClient testRuntime ?w2 ''/todayItems'' getOptions Map.empty resp_json 2 (Some ?e2)
         \<lparr> sent = [?req, ?req], delays = [Finite 100, Finite 200] \<rparr>
       = (Returned (JObject [(''success'', JBoolean True)]),
          \<lparr> sent = [?req, ?req, ?req], delays = [Finite 100, Finite 200] \<rparr>)"
    using attemptLoop_return [of 2 testClient ?w2 "\<lparr> sent = [?req, ?req], delays = [Finite 100, Finite 200] \<rparr>"
             "''/todayItems''" getOptions Map.empty successResponse resp_json
             "JObject [(''success'', JBoolean True)]" testRuntime "Some ?e2"]
    by (simp add: fixture_defs)
  show ?thesis using a b c d by simp
qed



subsection \<open>Invariants of the failure record\<close>

text \<open>
  C7 (as amended). A failure record built from a response has a hint that is never negative
  when present, and copies the status and the reason phrase of the response as they are.
  Hence a failure that a call surfaces satisfies the three invariants whenever every failing
  response of the transport has a non-negative status and a non-empty reason phrase and every
  failure record thrown by the transport or the parser satisfies them; the records the executor
  synthesises for other faults (status 0, a fixed label) always do.
\<close>

theorem C7_failure_invariants:
  "(\<forall>h. retryAfterMs (httpError rt r ep m nowP nowS) = Some h \<longrightarrow> nonNegative h)
   \<and> status (httpError rt r ep m nowP nowS) = resp_status r
   \<and> statusText (httpError rt r ep m nowP nowS) = resp_statusText r
   \<and> ((\<forall>k req r. fetchFn w k req = Inr r \<and> \<not> resp_ok r
                    \<longrightarrow> 0 \<le> resp_status r \<and> resp_statusText r \<noteq> [])
        \<and> (\<forall>k req e. fetchFn w k req = Inl (ThrowsMarvinError e) \<longrightarrow> failureInvariant e)
        \<and> (\<forall>k req r e. fetchFn w k req = Inr r \<and> parser r = Inl (ThrowsMarvinError e)
                    \<longrightarrow> failureInvariant e)
        \<and> (fst (requestWithRetries this rt w ep options hs parser s) = Thrown e
            \<or> fst (requestWithRetries this rt w ep options hs parser s) = AfterLoop e)
       \<longrightarrow> failureInvariant e)"
proof (intro conjI impI allI)
  fix h assume "retryAfterMs (httpError rt r ep m nowP nowS) = Some h"
  then show "nonNegative h"
    by (simp add: httpError_def parseRetryAfter_nonNegative)
next
  show "status (httpError rt r ep m nowP nowS) = resp_status r" by (simp add: httpError_def)
  show "statusText (httpError rt r ep m nowP nowS) = resp_statusText r" by (simp add: httpError_def)
next
  assume a: "(\<forall>k req r. fetchFn w k req = Inr r \<and> \<not> resp_ok r
                    \<longrightarrow> 0 \<le> resp_status r \<and> resp_statusText r \<noteq> [])
        \<and> (\<forall>k req e. fetchFn w k req = Inl (ThrowsMarvinError e) \<longrightarrow> failureInvariant e)
        \<and> (\<forall>k req r e. fetchFn w k req = Inr r \<and> parser r = Inl (ThrowsMarvinError e)
                    \<longrightarrow> failureInvariant e)
        \<and> (fst (requestWithRetries this rt w ep options hs parser s) = Thrown e
            \<or> fst (requestWithRetries this rt w ep options hs parser s) = AfterLoop e)"
  then have "fst (requestWithRetries this rt w ep options hs parser s) = Thrown e
            \<or> fst (requestWithRetries this rt w ep options hs parser s) = AfterLoop e" by blast
  from requestWithRetries_surfaced[OF this]
  show "failureInvariant e"
  proof
    assume "\<exists>k. candidateOf rt w ep (methodOf options) parser k
                (fetchFn w k (buildRequest this ep options hs)) = Some e"
    then obtain k where c: "candidateOf rt w ep (methodOf options) parser k
                (fetchFn w k (buildRequest this ep options hs)) = Some e" ..
    show ?thesis
      by (rule candidateOf_invariant[OF c]) (use a in blast)+
  next
    assume "\<exists>now. e = retryExhausted ep (methodOf options) now"
    then show ?thesis by (auto simp: retryExhausted_def failureInvariant_def)
  qed
qed

theorem C7_failure_invariants_witness:
  "failureInvariant \<lparr> message = ''HTTP 429: Too Many Requests'', status = 429,
                       statusText = ''Too Many Requests'', endpoint = ''/todayItems'',
                       httpMethod = ''GET'', timestamp = 1445412480007,
                       retryAfterMs = Some (Finite 1500) \<rparr>
   \<and> fst (requestWithRetries testClient testRuntime
            (scripted [] (Inr (errorResponse 429 ''Too Many Requests'' (Some ''1.5''))))
            ''/todayItems'' getOptions Map.empty resp_json initial)
     = Thrown \<lparr> message = ''HTTP 429: Too Many Requests'', status = 429,
                statusText = ''Too Many Requests'', endpoint = ''/todayItems'',
                httpMethod = ''GET'', timestamp = 1445412480007,
                retryAfterMs = Some (Finite 1500) \<rparr>"
proof -
  let ?w = "scripted [] (Inr (errorResponse 429 ''Too Many Requests'' (Some ''1.5'')))"
  let ?e = "\<lparr> message = ''HTTP 429: Too Many Requests'', status = 429,
                       statusText = ''Too Many Requests'', endpoint = ''/todayItems'',
                       httpMethod = ''GET'', timestamp = 1445412480007,
                       retryAfterMs = Some (Finite 1500) \<rparr>"
  have run: "fst (requestWithRetries testClient testRuntime ?w ''/todayItems'' getOptions Map.empty
                    resp_json initial) = Thrown ?e"
    by (simp add: fixture_defs core_defs attemptLoop.simps Let_def)
  have h1: "\<forall>k req r. fetchFn ?w k req = Inr r \<and> \<not> resp_ok r
                    \<longrightarrow> 0 \<le> resp_status r \<and> resp_statusText r \<noteq> []"
    by (auto simp: fixture_defs)
  have h2: "\<forall>k req e. fetchFn ?w k req = Inl (ThrowsMarvinError e) \<longrightarrow> failureInvariant e"
    by (simp add: fixture_defs)
  have h3: "\<forall>k req r e. fetchFn ?w k req = Inr r \<and> resp_json r = Inl (ThrowsMarvinError e)
                    \<longrightarrow> failureInvariant e"
    by (auto simp: fixture_defs)
  from C7_failure_invariants [where rt = testRuntime and w = ?w and parser = resp_json
         and this = testClient and ep = "''/todayItems''" and options = getOptions
         and hs = Map.empty and s = initial and e = ?e] run h1 h2 h3
  show ?thesis by blast
qed

text \<open>
  A response whose reason phrase is empty gives a failure record whose \<^verbatim>\<open>statusText\<close> is
  empty.
\<close>

theorem C7_counterexample:
  "fst (request testClient testRuntime (scripted [] (Inr (errorResponse 404 [] None)))
          ''/habit?id=x'' getOptions Map.empty initial)
     = Thrown \<lparr> message = ''HTTP 404: '', status = 404, statusText = [],
                endpoint = ''/habit?id=x'', httpMethod = ''GET'', timestamp = 1445412480001,
                retryAfterMs = None \<rparr>
   \<and> \<not> failureInvariant \<lparr> message = ''HTTP 404: '', status = 404, statusText = [],
                endpoint = ''/habit?id=x'', httpMethod = ''GET'', timestamp = 1445412480001,
                retryAfterMs = None \<rparr>"
  by (simp add: fixture_defs core_defs attemptLoop.simps Let_def failureInvariant_def)

subsection \<open>The statement after the loop\<close>

text \<open>
  With a number of retries that is a natural number, no call ends in the statement after the
  loop: the call returns a value or throws from inside the loop.
\<close>

lemma requestWithRetries_integral_in_loop:
  assumes "retries this = of_nat N"
  shows "\<forall>e. fst (requestWithRetries this rt w ep options hs parser s) \<noteq> AfterLoop e"
proof -
  have r: "retries this = of_int (int N)" using assms by simp
  have n: "N = nat (int N - 0)" by simp
  have le: "(0::int) \<le> int N" by simp
  from attemptLoop_integral[OF r n le, of rt w ep options hs parser None s]
  show ?thesis by (auto simp: requestWithRetries_def)
qed

text \<open>
  C8. The constructor accepts \<^verbatim>\<open>retries: 1.5\<close>. Against a transport that always answers
  500, attempts 0 and 1 fail and wait (\<^verbatim>\<open>attempt === this.retries\<close> is never true), the
  condition \<^verbatim>\<open>2 <= 1.5\<close> ends the loop, and the statement after the loop throws the failure
  of attempt 1: the call ends in the statement that the comment in the code calls unreachable.
\<close>

theorem C8_fractional_retries_leave_loop:
  "newMarvinClient \<lparr> cfg_apiToken = Some ''retry-test-token'', cfg_baseUrl = None, cfg_timeout = None,
                     cfg_retries = Some (3 / 2), cfg_retryDelay = Some 100 \<rparr> = Inr fractionalClient
   \<and> fst (requestWithRetries fractionalClient testRuntime
            (scripted [] (Inr (errorResponse 500 ''Internal Server Error'' None)))
            ''/todayItems'' getOptions Map.empty resp_json initial)
     = AfterLoop \<lparr> message = ''HTTP 500: Internal Server Error'', status = 500,
                   statusText = ''Internal Server Error'', endpoint = ''/todayItems'',
                   httpMethod = ''GET'', timestamp = 1445412480003, retryAfterMs = None \<rparr>
   \<and> length (sent (snd (requestWithRetries fractionalClient testRuntime
            (scripted [] (Inr (errorResponse 500 ''Internal Server Error'' None)))
            ''/todayItems'' getOptions Map.empty resp_json initial))) = 2
   \<and> delays (snd (requestWithRetries fractionalClient testRuntime
            (scripted [] (Inr (errorResponse 500 ''Internal Server Error'' None)))
            ''/todayItems'' getOptions Map.empty resp_json initial)) = [Finite 100, Finite 200]"
  by (simp add: newMarvinClient_def trim_def isWhiteSpace_def fractionalClient_def fixture_defs core_defs
        attemptLoop.simps Let_def)

subsection \<open>Request bodies\<close>

text \<open>
  C9 (as amended). Every request that a call of \<^verbatim>\<open>post\<close> hands to the transport is a POST
  whose body is the JSON serialization of the body argument when that argument is truthy, and
  has no body when the argument is absent or falsy (\<^verbatim>\<open>undefined\<close>, \<^verbatim>\<open>null\<close>, 0,
  \<^verbatim>\<open>false\<close>, the empty string). With a number of retries that is not negative there is at
  least one such request.
\<close>

theorem C9_body_attached_when_truthy:
  "(\<forall>req \<in> set (sent (snd (post this rt w ep body hs initial))).
        req_method req = Some ''POST''
      \<and> req_body req = (if truthy body then Some (JSON_stringify rt body) else None))
   \<and> (0 \<le> retries this \<longrightarrow> sent (snd (post this rt w ep body hs initial)) \<noteq> [])"
proof -
  let ?req = "buildRequest this ep (postOptions rt body) hs"
  from attemptLoop_sent[OF refl, where this = this and attempt = 0 and rt = rt and w = w and ep = ep
         and options = "postOptions rt body" and hs = hs and parser = resp_json
         and lastError = None and s = initial]
  obtain m where
    s: "sent (snd (post this rt w ep body hs initial)) = replicate m ?req"
    and m: "0 \<le> retries this \<longrightarrow> 0 < m"
    by (auto simp: post_def request_def requestWithRetries_def initial_def)
  have b: "req_method ?req = Some ''POST''
         \<and> req_body ?req = (if truthy body then Some (JSON_stringify rt body) else None)"
    by (simp add: buildRequest_def postOptions_def Let_def)
  show ?thesis using s m b by auto
qed

theorem C9_body_attached_when_truthy_witness:
  "map req_body (sent (snd (post testClient testRuntime (scripted [] (Inr successResponse))
                              ''/claimRewardPoints'' (JNumber 5) Map.empty initial))) = [Some ''5'']
   \<and> map req_method (sent (snd (post testClient testRuntime (scripted [] (Inr successResponse))
                              ''/claimRewardPoints'' (JNumber 5) Map.empty initial))) = [Some ''POST'']
   \<and> map req_body (sent (snd (post testClient testRuntime (scripted [] (Inr successResponse))
                              ''/addTask'' (JObject []) Map.empty initial))) = [Some ''{}'']
   \<and> map req_body (sent (snd (post testClient testRuntime (scripted [] (Inr successResponse))
                              ''/addTask'' JUndefined Map.empty initial))) = [None]"
  using C9_body_attached_when_truthy [of testClient testRuntime "scripted [] (Inr successResponse)"
          "''/claimRewardPoints''" "JNumber 5" Map.empty]
  by (simp add: postOptions_def post_def fixture_defs core_defs attemptLoop.simps Let_def)

text \<open>
  The bodies 0, \<^verbatim>\<open>false\<close> and the empty string are present and falsy: \<^verbatim>\<open>if (body)\<close> is
  false, and the request the transport receives has no body.
\<close>

theorem C9_counterexample:
  "map req_body (sent (snd (post testClient testRuntime (scripted [] (Inr successResponse))
                              ''/claimRewardPoints'' (JNumber 0) Map.empty initial))) = [None]
   \<and> map req_body (sent (snd (post testClient testRuntime (scripted [] (Inr successResponse))
                              ''/claimRewardPoints'' (JBoolean False) Map.empty initial))) = [None]
   \<and> map req_body (sent (snd (post testClient testRuntime (scripted [] (Inr successResponse))
                              ''/claimRewardPoints'' (JString []) Map.empty initial))) = [None]"
  by (simp add: postOptions_def post_def fixture_defs core_defs attemptLoop.simps Let_def)

subsection \<open>The credential\<close>

text \<open>
  C10. A configuration whose \<^verbatim>\<open>apiToken\<close> is absent, empty or made of white space only is
  rejected with the message "API token is required and cannot be empty", whatever the other
  fields hold (so before they are validated). A client that was constructed holds the
  configured token, which has a character that is not white space, and every request built
  for the transport carries it in the \<^verbatim>\<open>X-API-Token\<close> header unless the caller's own headers
  name that key.
\<close>

theorem C10_token_required:
  "((cfg_apiToken config = None \<or> (\<exists>t. cfg_apiToken config = Some t \<and> (\<forall>c\<in>set t. isWhiteSpace c)))
      \<longrightarrow> newMarvinClient config = Inl ''API token is required and cannot be empty'')
   \<and> (\<forall>this. newMarvinClient config = Inr this \<longrightarrow>
         cfg_apiToken config = Some (apiToken this) \<and> (\<exists>c\<in>set (apiToken this). \<not> isWhiteSpace c)
         \<and> (\<forall>ep (options :: RequestInit) (hs :: string \<rightharpoonup> string).
               ''X-API-Token'' \<notin> dom hs \<union> dom (init_headers options) \<longrightarrow>
               req_headers (buildRequest this ep options hs) ''X-API-Token'' = Some (apiToken this)))"
proof (intro conjI impI allI)
  assume "cfg_apiToken config = None \<or> (\<exists>t. cfg_apiToken config = Some t \<and> (\<forall>c\<in>set t. isWhiteSpace c))"
  then show "newMarvinClient config = Inl ''API token is required and cannot be empty''"
    by (auto simp: newMarvinClient_def trim_Nil_iff)
next
  fix this assume a: "newMarvinClient config = Inr this"
  show "cfg_apiToken config = Some (apiToken this)" using newMarvinClient_Inr[OF a] by simp
  show "\<exists>c\<in>set (apiToken this). \<not> isWhiteSpace c"
    using newMarvinClient_Inr[OF a] trim_Nil_iff[of "apiToken this"] by blast
next
  fix this ep and options :: RequestInit and hs :: "string \<rightharpoonup> string"
  assume "''X-API-Token'' \<notin> dom hs \<union> dom (init_headers options)"
  then show "req_headers (buildRequest this ep options hs) ''X-API-Token'' = Some (apiToken this)"
    by (auto simp: buildRequest_def map_add_def split: option.splits)
qed

theorem C10_token_required_witness:
  "newMarvinClient \<lparr> cfg_apiToken = Some '' '', cfg_baseUrl = None, cfg_timeout = Some (- 1),
                       cfg_retries = Some (- 1), cfg_retryDelay = Some 0 \<rparr>
     = Inl ''API token is required and cannot be empty''
   \<and> newMarvinClient \<lparr> cfg_apiToken = Some ''tok'', cfg_baseUrl = None, cfg_timeout = None,
                       cfg_retries = None, cfg_retryDelay = None \<rparr>
     = Inr \<lparr> apiToken = ''tok'', baseUrl = ''https://serv.amazingmarvin.com/api'', timeout = 10000,
             retries = 3, retryDelay = 1000 \<rparr>
   \<and> (\<exists>c\<in>set ''tok''. \<not> isWhiteSpace c)"
  using C10_token_required [of "\<lparr> cfg_apiToken = Some '' '', cfg_baseUrl = None, cfg_timeout = Some (- 1),
                       cfg_retries = Some (- 1), cfg_retryDelay = Some 0 \<rparr>"]
        C10_token_required [of "\<lparr> cfg_apiToken = Some ''tok'', cfg_baseUrl = None, cfg_timeout = None,
                       cfg_retries = None, cfg_retryDelay = None \<rparr>"]
  by (simp add: isWhiteSpace_def newMarvinClient_def trim_def nullish_def orElse_def)

end
